theory Spec2Isabelle
  imports Main
begin

section \<open>PostgresConnect: a pooled database client with string-built statements\<close>

text \<open>
  The development embeds \<^verbatim>\<open>psycopg_wrapper/PostgresConnect.py\<close>. The connection pool
  and the database driver are external: the pool is the sequence of answers that
  successive \<^verbatim>\<open>getconn()\<close> calls give, the driver is a function from the statement
  that is executed to what \<^verbatim>\<open>cursor.execute\<close> does with it. Every call the client makes
  on a connection, a cursor or the pool is appended to a trace, in program order. Of the
  calls on the driver, \<^verbatim>\<open>cursor.execute\<close> is the one that may raise; of the calls on the
  pool, \<^verbatim>\<open>getconn\<close>. The interpreter's stack is finite: \<^verbatim>\<open>_get_connection\<close> calls
  itself, and the call that no longer fits raises \<^verbatim>\<open>RecursionError\<close>. All other calls
  nest to a fixed depth and are taken to fit.
\<close>

subsection \<open>Values\<close>

datatype sqlval = SqlNull | SqlInt int | SqlStr string

type_synonym row = "sqlval list"

text \<open>The second argument of \<^verbatim>\<open>cursor.execute\<close>: a list, or Python's \<^verbatim>\<open>None\<close>.\<close>

type_synonym params = "sqlval list option"

text \<open>A connection handle is known by its identity.\<close>

type_synonym conn = nat

datatype cursor_kind = DictCursor | NamedTupleCursor

datatype error =
    DriverError string  \<comment> \<open>whatever \<^verbatim>\<open>cursor.execute\<close> raises\<close>
  | AttributeError      \<comment> \<open>attribute lookup on an object that lacks the attribute\<close>
  | RecursionError      \<comment> \<open>a call that exceeds the interpreter's recursion limit\<close>

text \<open>One answer of \<^verbatim>\<open>connection_pool.getconn()\<close>: a handle, or an exception.\<close>

datatype pool_response = Handle conn | PoolError | OtherException

text \<open>
  What \<^verbatim>\<open>cursor.execute(query, params)\<close> does: it raises, or it returns and leaves
  \<^verbatim>\<open>cursor.description\<close> set (the statement produces columns; \<^verbatim>\<open>fetchall()\<close> then
  yields the rows) or unset.
\<close>

datatype exec_outcome = Raises error | Described "row list" | NoDescription

type_synonym driver = "conn \<Rightarrow> string \<Rightarrow> params \<Rightarrow> exec_outcome"

text \<open>
  The calls the client makes, as they are logged. \<open>Execute c a q p\<close> is
  \<^verbatim>\<open>cursor.execute(q, p)\<close> on a cursor of connection \<open>c\<close> whose \<^verbatim>\<open>autocommit\<close>
  attribute is \<open>a\<close> at that moment.
\<close>

datatype event =
    GetConn conn
  | GetConnRaised
  | SetAutocommit conn
  | OpenCursor conn "cursor_kind option"
  | Execute conn bool string params
  | Commit conn
  | Fetchall conn
  | CloseCursor conn
  | PutConn conn

text \<open>
  The world: how many answers of the pool are used up, the \<^verbatim>\<open>closed\<close> and
  \<^verbatim>\<open>autocommit\<close> attributes of every connection object, the trace, and the room on
  the interpreter's stack: \<open>stack_room\<close> is the number of nested activations of
  \<^verbatim>\<open>_get_connection\<close> (each with its call of \<^verbatim>\<open>getconn\<close>) that fit above the frame of
  \<^verbatim>\<open>execute_query\<close>. With the default recursion limit of 1000 it is below 1000.
\<close>

record world =
  stack_room :: nat
  pool_pos :: nat
  closed :: "conn \<Rightarrow> bool"
  autocommit :: "conn \<Rightarrow> bool"
  trace :: "event list"

text \<open>The fields of \<^verbatim>\<open>self\<close> that the methods read.\<close>

record client =
  cursor_factory :: "cursor_kind option"
  connection_pool :: "nat \<Rightarrow> pool_response"

text \<open>The choice of cursor factory in \<^verbatim>\<open>__init__\<close>.\<close>

definition init_cursor_factory :: "string \<Rightarrow> cursor_kind option" where
  "init_cursor_factory type_cursor =
     (if type_cursor \<noteq> [] then
        Some (if type_cursor = ''dict'' then DictCursor else NamedTupleCursor)
      else None)"

definition log :: "event \<Rightarrow> world \<Rightarrow> world" where
  "log ev w = w\<lparr>trace := trace w @ [ev]\<rparr>"

subsection \<open>Acquiring and returning connections\<close>

text \<open>One call of \<^verbatim>\<open>getconn()\<close> uses up one answer of the pool.\<close>

definition getconn_event :: "pool_response \<Rightarrow> event" where
  "getconn_event r =
     (case r of Handle c \<Rightarrow> GetConn c | PoolError \<Rightarrow> GetConnRaised
      | OtherException \<Rightarrow> GetConnRaised)"

definition getconn :: "client \<Rightarrow> world \<Rightarrow> pool_response \<times> world" where
  "getconn self w =
     (let r = connection_pool self (pool_pos w)
      in (r, log (getconn_event r) (w\<lparr>pool_pos := Suc (pool_pos w)\<rparr>)))"

text \<open>
  \<^verbatim>\<open>_get_connection\<close> with room for \<open>d\<close> nested activations. With no room the call
  itself raises \<^verbatim>\<open>RecursionError\<close> where it is made. Otherwise: a closed handle leads to
  a recursive call inside the \<^verbatim>\<open>try\<close> block, so what that call raises is caught by the
  bare \<^verbatim>\<open>except\<close>, whose handler makes the call once more; \<^verbatim>\<open>PoolError\<close> and any other
  exception of \<^verbatim>\<open>getconn\<close> lead to a recursive call inside a handler, and what a call
  inside a handler raises goes to the caller.
\<close>

primrec get_connection :: "client \<Rightarrow> nat \<Rightarrow> world \<Rightarrow> (error + conn) \<times> world" where
  "get_connection self 0 = (\<lambda>w. (Inl RecursionError, w))"
| "get_connection self (Suc d) = (\<lambda>w.
     case getconn self w of
       (Handle connection, w') \<Rightarrow>
         if closed w' connection then
           (case get_connection self d w' of
              (Inl e, w'') \<Rightarrow> get_connection self d w''
            | (Inr c, w'') \<Rightarrow> (Inr c, w''))
         else (Inr connection, w')
     | (PoolError, w') \<Rightarrow> get_connection self d w'
     | (OtherException, w') \<Rightarrow> get_connection self d w')"

definition put_connection :: "conn \<Rightarrow> world \<Rightarrow> world" where
  "put_connection con w = log (PutConn con) w"

text \<open>
  \<^verbatim>\<open>_create_cursor\<close>: the parameter \<^verbatim>\<open>connection\<close> is rebound when it is closed; the
  rebinding is local, the caller keeps the handle it passed. A cursor is known by the
  connection it belongs to. The method runs two frames above \<^verbatim>\<open>execute_query\<close>.
\<close>

definition create_cursor :: "client \<Rightarrow> conn \<Rightarrow> world \<Rightarrow> (error + conn) \<times> world" where
  "create_cursor self connection w =
     (case (if closed w connection then get_connection self (stack_room w - 2) w
            else (Inr connection, w)) of
        (Inl e, w') \<Rightarrow> (Inl e, w')
      | (Inr connection', w') \<Rightarrow>
          (case cursor_factory self of
             Some k \<Rightarrow> (Inr connection', log (OpenCursor connection' (Some k)) w')
           | None \<Rightarrow> (Inr connection', log (OpenCursor connection' None) w')))"

definition close_cursor :: "conn \<Rightarrow> world \<Rightarrow> world" where
  "close_cursor cursor w = log (CloseCursor cursor) w"

definition close_cursor_connection :: "conn \<Rightarrow> conn \<Rightarrow> world \<Rightarrow> world" where
  "close_cursor_connection cursor connection w =
     put_connection connection (close_cursor cursor w)"

subsection \<open>Statement fragments\<close>

text \<open>Python's \<^verbatim>\<open>sep.join(xs)\<close>.\<close>

fun join :: "string \<Rightarrow> string list \<Rightarrow> string" where
  "join sep [] = []"
| "join sep [x] = x"
| "join sep (x # y # ys) = x @ sep @ join sep (y # ys)"

text \<open>Python's \<^verbatim>\<open>'%d' % n\<close> for an integer.\<close>

fun str_nat :: "nat \<Rightarrow> string" where
  "str_nat n =
     (if n < 10 then [''0123456789'' ! n]
      else str_nat (n div 10) @ [''0123456789'' ! (n mod 10)])"

definition str_int :: "int \<Rightarrow> string" where
  "str_int i = (if i < 0 then CHR ''-'' # str_nat (nat (- i)) else str_nat (nat i))"

text \<open>
  The \<^verbatim>\<open>where\<close> argument is a tuple: empty, a fragment alone, or a fragment with the
  list of its parameters. Elements after the second are never read.
\<close>

datatype where_t = W0 | W1 string | W2 string "sqlval list"

text \<open>\<^verbatim>\<open>_where\<close>: \<^verbatim>\<open>where[0]\<close> is read only when the tuple has an element.\<close>

fun where_sql :: "where_t option \<Rightarrow> string" where
  "where_sql None = []"
| "where_sql (Some W0) = []"
| "where_sql (Some (W1 f)) = '' WHERE '' @ f"
| "where_sql (Some (W2 f ps)) = '' WHERE '' @ f"

text \<open>\<^verbatim>\<open>_order\<close>: a sequence holding the expression and, optionally, the direction.\<close>

fun order_sql :: "string list option \<Rightarrow> string" where
  "order_sql None = []"
| "order_sql (Some []) = []"
| "order_sql (Some [o0]) = '' ORDER BY '' @ o0"
| "order_sql (Some (o0 # o1 # os)) = '' ORDER BY '' @ o0 @ '' '' @ o1"

text \<open>\<^verbatim>\<open>_limit\<close> and \<^verbatim>\<open>_offset\<close>: \<^verbatim>\<open>None\<close> and \<^verbatim>\<open>0\<close> are both false.\<close>

fun limit :: "int option \<Rightarrow> string" where
  "limit None = []"
| "limit (Some n) = (if n \<noteq> 0 then '' LIMIT '' @ str_int n else [])"

fun offset :: "int option \<Rightarrow> string" where
  "offset None = []"
| "offset (Some n) = (if n \<noteq> 0 then '' OFFSET '' @ str_int n else [])"

text \<open>\<^verbatim>\<open>if returning:\<close> is false for \<^verbatim>\<open>None\<close> and for the empty string.\<close>

fun is_set :: "string option \<Rightarrow> bool" where
  "is_set None = False"
| "is_set (Some s) = (s \<noteq> [])"

fun returning :: "string option \<Rightarrow> string" where
  "returning None = []"
| "returning (Some s) = (if s \<noteq> [] then '' RETURNING '' @ s else [])"

text \<open>
  A \<^verbatim>\<open>dict\<close> keeps its keys in insertion order: \<^verbatim>\<open>data\<close> is the list of its items.
\<close>

type_synonym data = "(string \<times> sqlval) list"

definition format_insert :: "data \<Rightarrow> string \<times> string" where
  "format_insert d = (join '','' (map fst d), join '','' (map (\<lambda>_. ''%s'') d))"

definition format_update :: "data \<Rightarrow> string" where
  "format_update d = join ''=%s,'' (map fst d) @ ''=%s''"

subsection \<open>Executing a statement\<close>

text \<open>What \<^verbatim>\<open>execute_query\<close> returns: the list of all rows, or \<^verbatim>\<open>True\<close>.\<close>

datatype qresult = Rows "row list" | PyTrue

text \<open>
  The outcome of a method: the exception raised or the value returned, with the world the
  call leaves.
\<close>

type_synonym 'a outcome = "(error + 'a) \<times> world"

definition execute_with_autocommit ::
  "client \<Rightarrow> driver \<Rightarrow> conn \<Rightarrow> string \<Rightarrow> params \<Rightarrow> world \<Rightarrow> qresult outcome" where
  "execute_with_autocommit self db connection query ps w =
     (case create_cursor self connection w of
        (Inl e, w1) \<Rightarrow> (Inl e, w1)
      | (Inr cursor, w1) \<Rightarrow>
          (let w2 = log (Execute cursor (autocommit w1 cursor) query ps) w1 in
           case db cursor query ps of
             Raises e \<Rightarrow> (Inl e, w2)
           | Described all_data \<Rightarrow>
               (Inr (Rows all_data),
                close_cursor_connection cursor connection (log (Fetchall cursor) w2))
           | NoDescription \<Rightarrow>
               (Inr PyTrue, close_cursor_connection cursor connection w2)))"

definition execute_without_autocommit ::
  "client \<Rightarrow> driver \<Rightarrow> conn \<Rightarrow> string \<Rightarrow> params \<Rightarrow> world \<Rightarrow> qresult outcome" where
  "execute_without_autocommit self db connection query ps w =
     (case create_cursor self connection w of
        (Inl e, w1) \<Rightarrow> (Inl e, w1)
      | (Inr cursor, w1) \<Rightarrow>
          (let w2 = log (Execute cursor (autocommit w1 cursor) query ps) w1 in
           case db cursor query ps of
             Raises e \<Rightarrow> (Inl e, w2)
           | Described all_data \<Rightarrow>
               (Inr (Rows all_data),
                close_cursor_connection cursor connection
                  (log (Fetchall cursor) (log (Commit connection) w2)))
           | NoDescription \<Rightarrow>
               (Inr PyTrue,
                close_cursor_connection cursor connection (log (Commit connection) w2))))"

text \<open>
  \<^verbatim>\<open>execute_query\<close>. The classifier \<^verbatim>\<open>is_crud\<close> is imported from another module
  and is a parameter here.
\<close>

definition execute_query ::
  "client \<Rightarrow> (string \<Rightarrow> bool) \<Rightarrow> driver \<Rightarrow> string \<Rightarrow> params \<Rightarrow> world \<Rightarrow> qresult outcome" where
  "execute_query self is_crud db query ps w =
     (case get_connection self (stack_room w) w of
        (Inl e, w1) \<Rightarrow> (Inl e, w1)
      | (Inr connection, w1) \<Rightarrow>
          if \<not> is_crud query then
            execute_with_autocommit self db connection query ps
              (log (SetAutocommit connection)
                 (w1\<lparr>autocommit := (autocommit w1)(connection := True)\<rparr>))
          else execute_without_autocommit self db connection query ps w1)"

subsection \<open>The helpers\<close>

text \<open>
  Some helpers read an attribute of what \<^verbatim>\<open>execute_query\<close> returned. That value is a
  \<^verbatim>\<open>list\<close> or a \<^verbatim>\<open>bool\<close>; neither has the attributes of a cursor.
\<close>

fun attr_fetchone :: "qresult \<Rightarrow> error + row" where
  "attr_fetchone (Rows all_data) = Inl AttributeError"
| "attr_fetchone PyTrue = Inl AttributeError"

fun attr_fetchall :: "qresult \<Rightarrow> error + row list" where
  "attr_fetchall (Rows all_data) = Inl AttributeError"
| "attr_fetchall PyTrue = Inl AttributeError"

fun attr_rowcount :: "qresult \<Rightarrow> error + int" where
  "attr_rowcount (Rows all_data) = Inl AttributeError"
| "attr_rowcount PyTrue = Inl AttributeError"

text \<open>What a helper is written to return.\<close>

datatype helper_value = OneRow row | AllRows "row list" | RowCount int

text \<open>
  The rest of a helper after its call of \<^verbatim>\<open>execute_query\<close>: nothing when that call
  raises, otherwise the helper's own \<^verbatim>\<open>return\<close>.
\<close>

definition then_return :: "qresult outcome \<Rightarrow> (qresult \<Rightarrow> error + 'a) \<Rightarrow> 'a outcome" where
  "then_return r f =
     (case r of
        (Inl e, w) \<Rightarrow> (Inl e, w)
      | (Inr cur, w) \<Rightarrow> (f cur, w))"

definition truncate_sql :: "string \<Rightarrow> bool \<Rightarrow> bool \<Rightarrow> string" where
  "truncate_sql table restart_identity cascade =
     ''TRUNCATE '' @ table
       @ (if restart_identity then '' RESTART IDENTITY'' else [])
       @ (if cascade then '' CASCADE'' else [])"

definition truncate ::
  "client \<Rightarrow> (string \<Rightarrow> bool) \<Rightarrow> driver \<Rightarrow> string \<Rightarrow> bool \<Rightarrow> bool \<Rightarrow> world \<Rightarrow> unit outcome" where
  "truncate self is_crud db table restart_identity cascade w =
     then_return
       (execute_query self is_crud db (truncate_sql table restart_identity cascade) None w)
       (\<lambda>_. Inr ())"

definition drop_sql :: "string \<Rightarrow> bool \<Rightarrow> string" where
  "drop_sql table cascade =
     ''DROP TABLE IF EXISTS '' @ table @ (if cascade then '' CASCADE'' else [])"

definition drop_table ::
  "client \<Rightarrow> (string \<Rightarrow> bool) \<Rightarrow> driver \<Rightarrow> string \<Rightarrow> bool \<Rightarrow> world \<Rightarrow> unit outcome" where
  "drop_table self is_crud db table cascade w =
     then_return (execute_query self is_crud db (drop_sql table cascade) None w) (\<lambda>_. Inr ())"

definition create_sql :: "string \<Rightarrow> string \<Rightarrow> string" where
  "create_sql table schema = ''CREATE TABLE '' @ table @ '' ('' @ schema @ '')''"

definition create ::
  "client \<Rightarrow> (string \<Rightarrow> bool) \<Rightarrow> driver \<Rightarrow> string \<Rightarrow> string \<Rightarrow> world \<Rightarrow> unit outcome" where
  "create self is_crud db table schema w =
     then_return (execute_query self is_crud db (create_sql table schema) None w) (\<lambda>_. Inr ())"

definition insert_sql :: "string \<Rightarrow> data \<Rightarrow> string option \<Rightarrow> string" where
  "insert_sql table d ret =
     (case format_insert d of
        (cols, vals) \<Rightarrow>
          ''INSERT INTO '' @ table @ '' ('' @ cols @ '') VALUES('' @ vals @ '')'' @ returning ret)"

text \<open>\<^verbatim>\<open>cur.fetchone() if returning else cur.rowcount\<close>\<close>

definition fetchone_or_rowcount :: "string option \<Rightarrow> qresult \<Rightarrow> error + helper_value" where
  "fetchone_or_rowcount ret cur =
     (if is_set ret then map_sum id OneRow (attr_fetchone cur)
      else map_sum id RowCount (attr_rowcount cur))"

text \<open>\<^verbatim>\<open>cur.fetchall() if returning else cur.rowcount\<close>\<close>

definition fetchall_or_rowcount :: "string option \<Rightarrow> qresult \<Rightarrow> error + helper_value" where
  "fetchall_or_rowcount ret cur =
     (if is_set ret then map_sum id AllRows (attr_fetchall cur)
      else map_sum id RowCount (attr_rowcount cur))"

definition insert_row ::
  "client \<Rightarrow> (string \<Rightarrow> bool) \<Rightarrow> driver \<Rightarrow> string \<Rightarrow> data \<Rightarrow> string option \<Rightarrow> world
     \<Rightarrow> helper_value outcome" where
  "insert_row self is_crud db table d ret w =
     then_return (execute_query self is_crud db (insert_sql table d ret) (Some (map snd d)) w)
       (fetchone_or_rowcount ret)"

definition select_sql ::
  "string \<Rightarrow> string list \<Rightarrow> where_t option \<Rightarrow> string list option \<Rightarrow> int option \<Rightarrow> int option
     \<Rightarrow> string" where
  "select_sql table flds wh ord lim off =
     ''SELECT '' @ join '', '' flds @ '' FROM '' @ table
       @ where_sql wh @ order_sql ord @ limit lim @ offset off"

definition select ::
  "client \<Rightarrow> (string \<Rightarrow> bool) \<Rightarrow> driver \<Rightarrow> string \<Rightarrow> string list \<Rightarrow> where_t option
     \<Rightarrow> string list option \<Rightarrow> int option \<Rightarrow> int option \<Rightarrow> world \<Rightarrow> qresult outcome" where
  "select self is_crud db table flds wh ord lim off w =
     execute_query self is_crud db (select_sql table flds wh ord lim off) None w"

definition update_sql :: "string \<Rightarrow> data \<Rightarrow> where_t option \<Rightarrow> string option \<Rightarrow> string" where
  "update_sql table d wh ret =
     ''UPDATE '' @ table @ '' SET '' @ format_update d @ where_sql wh @ returning ret"

text \<open>
  The parameters of \<^verbatim>\<open>update\<close>: the conditional expression binds weaker than \<^verbatim>\<open>+\<close>,
  so \<^verbatim>\<open>where[1]\<close> is appended exactly when the tuple has a second element.
\<close>

fun update_params :: "data \<Rightarrow> where_t option \<Rightarrow> params" where
  "update_params d (Some (W2 f ps)) = Some (map snd d @ ps)"
| "update_params d wh = Some (map snd d)"

definition update ::
  "client \<Rightarrow> (string \<Rightarrow> bool) \<Rightarrow> driver \<Rightarrow> string \<Rightarrow> data \<Rightarrow> where_t option \<Rightarrow> string option
     \<Rightarrow> world \<Rightarrow> helper_value outcome" where
  "update self is_crud db table d wh ret w =
     then_return
       (execute_query self is_crud db (update_sql table d wh ret) (update_params d wh) w)
       (fetchall_or_rowcount ret)"

definition delete_sql :: "string \<Rightarrow> where_t option \<Rightarrow> string option \<Rightarrow> string" where
  "delete_sql table wh ret = ''DELETE FROM '' @ table @ where_sql wh @ returning ret"

fun delete_params :: "where_t option \<Rightarrow> params" where
  "delete_params (Some (W2 f ps)) = Some ps"
| "delete_params wh = None"

definition delete ::
  "client \<Rightarrow> (string \<Rightarrow> bool) \<Rightarrow> driver \<Rightarrow> string \<Rightarrow> where_t option \<Rightarrow> string option
     \<Rightarrow> world \<Rightarrow> helper_value outcome" where
  "delete self is_crud db table wh ret w =
     then_return (execute_query self is_crud db (delete_sql table wh ret) (delete_params wh) w)
       (fetchall_or_rowcount ret)"

subsection \<open>The statement classifier\<close>

text \<open>
  The function \<^verbatim>\<open>is_crud\<close> belongs to the module \<^verbatim>\<open>psycopg_wrapper.validator\<close>, which
  \<^verbatim>\<open>PostgresConnect.py\<close> imports and which is not among the sources. The spec describes
  it: a statement is treated as mutating unless its first keyword matches a fixed
  read-only allow-list (e.g. \<^verbatim>\<open>SELECT\<close>); the classification is a simple prefix/keyword
  check at the start of the statement, case-insensitive.
\<close>

text \<open>
  Modelled from the spec: the case-insensitive comparison of \<^verbatim>\<open>is_crud\<close>, which is
  missing from the sources; a letter is compared in upper case.
\<close>

definition upper :: "char \<Rightarrow> char" where
  "upper c =
     (case map_of (zip ''abcdefghijklmnopqrstuvwxyz'' ''ABCDEFGHIJKLMNOPQRSTUVWXYZ'') c of
        Some u \<Rightarrow> u
      | None \<Rightarrow> c)"

text \<open>
  Modelled from the spec: the read-only allow-list of \<^verbatim>\<open>is_crud\<close>, which is missing from
  the sources; \<^verbatim>\<open>SELECT\<close> is the only keyword the spec names for it.
\<close>

definition read_only_keywords :: "string list" where
  "read_only_keywords = [''SELECT'']"

text \<open>
  Modelled from the spec: the classifier \<^verbatim>\<open>is_crud\<close> of \<^verbatim>\<open>psycopg_wrapper.validator\<close>,
  which is missing from the sources; a statement is mutating unless it starts with a
  keyword of the allow-list, in any case.
\<close>

definition is_crud :: "string \<Rightarrow> bool" where
  "is_crud query =
     (\<not> list_ex (\<lambda>kw. map upper (take (length kw) query) = kw) read_only_keywords)"

subsection \<open>Concrete pools, drivers and worlds\<close>

text \<open>
  A world in which nothing has happened: every connection open, autocommit off, and room
  on the stack for 900 nested activations.
\<close>

definition fresh_world :: world where
  "fresh_world =
     \<lparr>stack_room = 900, pool_pos = 0, closed = (\<lambda>c. False), autocommit = (\<lambda>c. False),
      trace = []\<rparr>"

text \<open>The same, except that connection \<open>1\<close> is closed.\<close>

definition stale_world :: world where
  "stale_world =
     \<lparr>stack_room = 900, pool_pos = 0, closed = (\<lambda>c. c = 1), autocommit = (\<lambda>c. False),
      trace = []\<rparr>"

text \<open>
  Connection \<open>1\<close> has been handed out by the pool's first answer and is closed by now.
\<close>

definition dropped_world :: world where
  "dropped_world =
     \<lparr>stack_room = 900, pool_pos = 1, closed = (\<lambda>c. c = 1), autocommit = (\<lambda>c. False),
      trace = [GetConn 1]\<rparr>"

text \<open>A client whose pool hands out connection \<open>1\<close> at every call.\<close>

definition steady_client :: client where
  "steady_client = \<lparr>cursor_factory = None, connection_pool = (\<lambda>i. Handle 1)\<rparr>"

text \<open>A client whose pool hands out connection \<open>1\<close> first and connection \<open>2\<close> from then on.\<close>

definition two_conn_client :: client where
  "two_conn_client =
     \<lparr>cursor_factory = None, connection_pool = (\<lambda>i. if i = 0 then Handle 1 else Handle 2)\<rparr>"

text \<open>A client whose pool raises at every call.\<close>

definition exhausted_client :: client where
  "exhausted_client = \<lparr>cursor_factory = None, connection_pool = (\<lambda>i. PoolError)\<rparr>"

text \<open>Drivers: one that produces no columns, one that produces a row, one that raises.\<close>

definition no_columns :: driver where
  "no_columns = (\<lambda>c q ps. NoDescription)"

definition one_row :: driver where
  "one_row = (\<lambda>c q ps. Described [[SqlInt 1]])"

definition failing :: driver where
  "failing = (\<lambda>c q ps. Raises (DriverError ''syntax error''))"

section \<open>Properties\<close>

subsection \<open>Acquisition\<close>

lemma getconn_simps:
  "fst (getconn self w) = connection_pool self (pool_pos w)"
  "pool_pos (snd (getconn self w)) = Suc (pool_pos w)"
  "closed (snd (getconn self w)) = closed w"
  "autocommit (snd (getconn self w)) = autocommit w"
  "stack_room (snd (getconn self w)) = stack_room w"
  "trace (snd (getconn self w)) = trace w @ [getconn_event (connection_pool self (pool_pos w))]"
  by (simp_all add: getconn_def log_def Let_def)

text \<open>One activation, by the first answer of the pool.\<close>

lemma get_connection_hit:
  assumes "connection_pool self (pool_pos w) = Handle c" and "\<not> closed w c" and "0 < d"
  shows "get_connection self d w = (Inr c, snd (getconn self w))"
proof -
  from assms(3) obtain d' where "d = Suc d'" by (cases d) simp_all
  with assms(1,2) show ?thesis
    by (simp add: getconn_def log_def Let_def)
qed

lemma get_connection_raised:
  assumes "\<And>c. connection_pool self (pool_pos w) \<noteq> Handle c"
  shows "get_connection self (Suc d) w = get_connection self d (snd (getconn self w))"
proof (cases "connection_pool self (pool_pos w)")
  case (Handle c)
  with assms show ?thesis by blast
qed (simp_all add: getconn_def log_def Let_def)

lemma get_connection_closed:
  assumes "connection_pool self (pool_pos w) = Handle c" and "closed w c"
  shows "get_connection self (Suc d) w =
           (case get_connection self d (snd (getconn self w)) of
              (Inl e, w'') \<Rightarrow> get_connection self d w''
            | (Inr c', w'') \<Rightarrow> (Inr c', w''))"
  using assms by (simp add: getconn_def log_def Let_def)

text \<open>The attributes of the connections and the room on the stack are left as they were.\<close>

lemma get_connection_unchanged:
  "closed (snd (get_connection self d w)) = closed w \<and>
   autocommit (snd (get_connection self d w)) = autocommit w \<and>
   stack_room (snd (get_connection self d w)) = stack_room w"
proof (induction d arbitrary: w)
  case 0
  show ?case by simp
next
  case (Suc d)
  let ?w' = "snd (getconn self w)"
  show ?case
  proof (cases "\<exists>c. connection_pool self (pool_pos w) = Handle c")
    case False
    then have "get_connection self (Suc d) w = get_connection self d ?w'"
      by (intro get_connection_raised) simp
    with Suc.IH[of ?w'] show ?thesis by (simp add: getconn_simps)
  next
    case True
    then obtain c where c: "connection_pool self (pool_pos w) = Handle c" by blast
    show ?thesis
    proof (cases "closed w c")
      case False
      from get_connection_hit[OF c False, of "Suc d"] show ?thesis
        by (simp add: getconn_simps)
    next
      case True
      obtain r w'' where inner: "get_connection self d ?w' = (r, w'')"
        by (cases "get_connection self d ?w'")
      from Suc.IH[of ?w'] inner have w'': "closed w'' = closed w" "autocommit w'' = autocommit w"
        "stack_room w'' = stack_room w"
        by (simp_all add: getconn_simps)
      show ?thesis
      proof (cases r)
        case (Inl e)
        with get_connection_closed[OF c True, of d] inner
        have "get_connection self (Suc d) w = get_connection self d w''" by simp
        with Suc.IH[of w''] w'' show ?thesis by simp
      next
        case (Inr c')
        with get_connection_closed[OF c True, of d] inner
        have "get_connection self (Suc d) w = (Inr c', w'')" by simp
        with w'' show ?thesis by simp
      qed
    qed
  qed
qed

text \<open>A connection that is returned is open.\<close>

lemma get_connection_open_before:
  "get_connection self d w = (Inr c, w1) \<Longrightarrow> \<not> closed w c"
proof (induction d arbitrary: w)
  case 0
  then show ?case by simp
next
  case (Suc d)
  let ?w' = "snd (getconn self w)"
  show ?case
  proof (cases "\<exists>c'. connection_pool self (pool_pos w) = Handle c'")
    case False
    then have "get_connection self (Suc d) w = get_connection self d ?w'"
      by (intro get_connection_raised) simp
    with Suc.prems Suc.IH[of ?w'] show ?thesis by (simp add: getconn_simps)
  next
    case True
    then obtain c' where c': "connection_pool self (pool_pos w) = Handle c'" by blast
    show ?thesis
    proof (cases "closed w c'")
      case False
      from get_connection_hit[OF c' False, of "Suc d"] Suc.prems False show ?thesis
        by simp
    next
      case True
      obtain r w'' where inner: "get_connection self d ?w' = (r, w'')"
        by (cases "get_connection self d ?w'")
      from get_connection_unchanged[of self d ?w'] inner have w'': "closed w'' = closed w"
        by (simp add: getconn_simps)
      show ?thesis
      proof (cases r)
        case (Inl e)
        with get_connection_closed[OF c' True, of d] inner
        have "get_connection self (Suc d) w = get_connection self d w''" by simp
        with Suc.prems Suc.IH[of w''] w'' show ?thesis by simp
      next
        case (Inr c'')
        with get_connection_closed[OF c' True, of d] inner
        have "get_connection self (Suc d) w = (Inr c'', w'')" by simp
        with Suc.prems inner Inr Suc.IH[of ?w'] show ?thesis by (simp add: getconn_simps)
      qed
    qed
  qed
qed

lemma get_connection_open:
  assumes "get_connection self d w = (Inr c, w1)"
  shows "\<not> closed w1 c"
  using get_connection_open_before[OF assms] get_connection_unchanged[of self d w] assms
  by simp

text \<open>
  If the answer number \<open>k\<close> is the first open handle and the stack has room for the
  activations up to it, the call returns that handle.
\<close>

lemma get_connection_complete:
  assumes "pool_pos w + n = k" and "n < d"
    and "connection_pool self k = Handle c" and "\<not> closed w c"
    and "\<And>j c'. pool_pos w \<le> j \<Longrightarrow> j < k \<Longrightarrow> connection_pool self j = Handle c' \<Longrightarrow> closed w c'"
  shows "get_connection self d w =
           (Inr c, w\<lparr>pool_pos := Suc k,
                     trace := trace w @ map (getconn_event \<circ> connection_pool self) [pool_pos w..<Suc k]\<rparr>)"
  using assms
proof (induction n arbitrary: w d)
  case 0
  then have "get_connection self d w = (Inr c, snd (getconn self w))"
    by (intro get_connection_hit) simp_all
  with 0 show ?case by (simp add: getconn_def log_def Let_def)
next
  case (Suc n)
  let ?w = "snd (getconn self w)"
  from Suc.prems(2) obtain d' where d: "d = Suc d'" "n < d'" by (cases d) simp_all
  have inner: "get_connection self d' ?w =
           (Inr c, ?w\<lparr>pool_pos := Suc k,
                      trace := trace ?w @ map (getconn_event \<circ> connection_pool self) [pool_pos ?w..<Suc k]\<rparr>)"
  proof (rule Suc.IH)
    show "pool_pos ?w + n = k" using Suc.prems(1) by (simp add: getconn_simps)
    show "n < d'" by (rule d(2))
    show "connection_pool self k = Handle c" by (rule Suc.prems(3))
    show "\<not> closed ?w c" using Suc.prems(4) by (simp add: getconn_simps)
    show "closed ?w c'" if "pool_pos ?w \<le> j" "j < k" "connection_pool self j = Handle c'" for j c'
      using Suc.prems(5)[of j c'] that by (simp add: getconn_simps)
  qed
  have "get_connection self (Suc d') w = get_connection self d' ?w"
  proof (cases "\<exists>c'. connection_pool self (pool_pos w) = Handle c'")
    case False
    then show ?thesis by (intro get_connection_raised) simp
  next
    case True
    then obtain c' where c': "connection_pool self (pool_pos w) = Handle c'" by blast
    have "closed w c'"
      using Suc.prems(5)[of "pool_pos w" c'] Suc.prems(1) c' by simp
    from get_connection_closed[OF c' this, of d'] inner show ?thesis by simp
  qed
  with inner d(1) Suc.prems(1) show ?case
    by (simp add: getconn_def log_def Let_def upt_conv_Cons)
qed

text \<open>
  If no answer of the pool is an open handle, the call raises \<^verbatim>\<open>RecursionError\<close>,
  whatever the room on the stack.
\<close>

lemma get_connection_no_open:
  assumes "\<And>j c'. connection_pool self j = Handle c' \<Longrightarrow> closed w c'"
  shows "fst (get_connection self d w) = Inl RecursionError"
  using assms
proof (induction d arbitrary: w)
  case 0
  show ?case by simp
next
  case (Suc d)
  let ?w' = "snd (getconn self w)"
  have IH: "fst (get_connection self d v) = Inl RecursionError" if "closed v = closed w" for v
    using Suc.prems that by (intro Suc.IH) simp
  show ?case
  proof (cases "\<exists>c. connection_pool self (pool_pos w) = Handle c")
    case False
    then have "get_connection self (Suc d) w = get_connection self d ?w'"
      by (intro get_connection_raised) simp
    with IH[of ?w'] show ?thesis by (simp add: getconn_simps)
  next
    case True
    then obtain c where c: "connection_pool self (pool_pos w) = Handle c" by blast
    with Suc.prems have cl: "closed w c" by blast
    obtain r w'' where inner: "get_connection self d ?w' = (r, w'')"
      by (cases "get_connection self d ?w'")
    from IH[of ?w'] inner have r: "r = Inl RecursionError" by (simp add: getconn_simps)
    from get_connection_unchanged[of self d ?w'] inner have "closed w'' = closed w"
      by (simp add: getconn_simps)
    with get_connection_closed[OF c cl, of d] inner r IH[of w''] show ?thesis by simp
  qed
qed

text \<open>With a pool that raises at every call, each activation makes one call of it.\<close>

lemma get_connection_exhausted:
  assumes "\<And>j c. connection_pool self j \<noteq> Handle c"
  shows "get_connection self d w =
           (Inl RecursionError,
            w\<lparr>pool_pos := pool_pos w + d, trace := trace w @ replicate d GetConnRaised\<rparr>)"
proof (induction d arbitrary: w)
  case 0
  show ?case by simp
next
  case (Suc d)
  let ?w' = "snd (getconn self w)"
  have "getconn_event (connection_pool self (pool_pos w)) = GetConnRaised"
  proof (cases "connection_pool self (pool_pos w)")
    case (Handle c)
    with assms show ?thesis by blast
  qed (simp_all add: getconn_event_def)
  then have w': "?w' = w\<lparr>pool_pos := Suc (pool_pos w), trace := trace w @ [GetConnRaised]\<rparr>"
    by (simp add: getconn_def log_def Let_def)
  have "get_connection self (Suc d) w = get_connection self d ?w'"
    using assms by (intro get_connection_raised) simp
  with Suc.IH[of ?w'] show ?case
    by (simp add: w' replicate_app_Cons_same)
qed

text \<open>
  C5. With a pool that raises \<^verbatim>\<open>PoolError\<close> at every call, \<^verbatim>\<open>_get_connection\<close> does not
  retry without end: for every room \<open>d\<close> on the stack it asks the pool \<open>d\<close> times, one
  call straight after the other, and then raises \<^verbatim>\<open>RecursionError\<close>; \<^verbatim>\<open>execute_query\<close>
  raises it in turn.
\<close>

theorem get_connection_recursion_error:
  "get_connection exhausted_client d w =
     (Inl RecursionError,
      w\<lparr>pool_pos := pool_pos w + d, trace := trace w @ replicate d GetConnRaised\<rparr>)
   \<and> execute_query exhausted_client classify db q ps w =
     (Inl RecursionError,
      w\<lparr>pool_pos := pool_pos w + stack_room w,
        trace := trace w @ replicate (stack_room w) GetConnRaised\<rparr>)"
proof -
  have raises: "\<And>j c. connection_pool exhausted_client j \<noteq> Handle c"
    by (simp add: exhausted_client_def)
  have acq: "get_connection exhausted_client d' w =
     (Inl RecursionError,
      w\<lparr>pool_pos := pool_pos w + d', trace := trace w @ replicate d' GetConnRaised\<rparr>)" for d'
    using raises by (rule get_connection_exhausted)
  show ?thesis
    using acq[of d] acq[of "stack_room w"] by (simp add: execute_query_def)
qed

subsection \<open>Execution\<close>

lemma create_cursor_open:
  "\<not> closed w c \<Longrightarrow>
     create_cursor self c w = (Inr c, log (OpenCursor c (cursor_factory self)) w)"
  by (simp add: create_cursor_def split: option.splits)

text \<open>The two execution paths on an open connection, call by call.\<close>

lemma execute_with_autocommit_open:
  assumes "\<not> closed w c"
  shows "execute_with_autocommit self db c q ps w =
     (case db c q ps of
        Raises e \<Rightarrow> Inl e | Described rows \<Rightarrow> Inr (Rows rows) | NoDescription \<Rightarrow> Inr PyTrue,
      w\<lparr>trace := trace w
           @ [OpenCursor c (cursor_factory self), Execute c (autocommit w c) q ps]
           @ (case db c q ps of
                Raises e \<Rightarrow> []
              | Described rows \<Rightarrow> [Fetchall c, CloseCursor c, PutConn c]
              | NoDescription \<Rightarrow> [CloseCursor c, PutConn c])\<rparr>)"
  using assms
  by (simp add: execute_with_autocommit_def create_cursor_open log_def
      close_cursor_connection_def close_cursor_def put_connection_def Let_def
      split: exec_outcome.splits)

lemma execute_without_autocommit_open:
  assumes "\<not> closed w c"
  shows "execute_without_autocommit self db c q ps w =
     (case db c q ps of
        Raises e \<Rightarrow> Inl e | Described rows \<Rightarrow> Inr (Rows rows) | NoDescription \<Rightarrow> Inr PyTrue,
      w\<lparr>trace := trace w
           @ [OpenCursor c (cursor_factory self), Execute c (autocommit w c) q ps]
           @ (case db c q ps of
                Raises e \<Rightarrow> []
              | Described rows \<Rightarrow> [Commit c, Fetchall c, CloseCursor c, PutConn c]
              | NoDescription \<Rightarrow> [Commit c, CloseCursor c, PutConn c])\<rparr>)"
  using assms
  by (simp add: execute_without_autocommit_def create_cursor_open log_def
      close_cursor_connection_def close_cursor_def put_connection_def Let_def
      split: exec_outcome.splits)

lemma execute_query_read:
  assumes "get_connection self (stack_room w) w = (Inr c, w1)" and "\<not> classify q"
  shows "execute_query self classify db q ps w =
     (case db c q ps of
        Raises e \<Rightarrow> Inl e | Described rows \<Rightarrow> Inr (Rows rows) | NoDescription \<Rightarrow> Inr PyTrue,
      w1\<lparr>autocommit := (autocommit w1)(c := True),
          trace := trace w1
            @ [SetAutocommit c, OpenCursor c (cursor_factory self), Execute c True q ps]
            @ (case db c q ps of
                 Raises e \<Rightarrow> []
               | Described rows \<Rightarrow> [Fetchall c, CloseCursor c, PutConn c]
               | NoDescription \<Rightarrow> [CloseCursor c, PutConn c])\<rparr>)"
proof -
  let ?w = "log (SetAutocommit c) (w1\<lparr>autocommit := (autocommit w1)(c := True)\<rparr>)"
  have "\<not> closed ?w c"
    using get_connection_open[OF assms(1)] by (simp add: log_def)
  from execute_with_autocommit_open[OF this, of self db q ps] assms show ?thesis
    by (simp add: execute_query_def log_def)
qed

lemma execute_query_write:
  assumes "get_connection self (stack_room w) w = (Inr c, w1)" and "classify q"
  shows "execute_query self classify db q ps w =
     (case db c q ps of
        Raises e \<Rightarrow> Inl e | Described rows \<Rightarrow> Inr (Rows rows) | NoDescription \<Rightarrow> Inr PyTrue,
      w1\<lparr>trace := trace w1
            @ [OpenCursor c (cursor_factory self), Execute c (autocommit w1 c) q ps]
            @ (case db c q ps of
                 Raises e \<Rightarrow> []
               | Described rows \<Rightarrow> [Commit c, Fetchall c, CloseCursor c, PutConn c]
               | NoDescription \<Rightarrow> [Commit c, CloseCursor c, PutConn c])\<rparr>)"
  using execute_without_autocommit_open[OF get_connection_open[OF assms(1)], of self db q ps] assms
  by (simp add: execute_query_def)

text \<open>What the acquisition raises, \<^verbatim>\<open>execute_query\<close> raises; nothing is executed.\<close>

lemma execute_query_no_connection:
  assumes "get_connection self (stack_room w) w = (Inl e, w1)"
  shows "execute_query self classify db q ps w = (Inl e, w1)"
  using assms by (simp add: execute_query_def)

lemma is_crud_iff: "is_crud q \<longleftrightarrow> map upper (take 6 q) \<noteq> ''SELECT''"
  by (simp add: is_crud_def read_only_keywords_def eval_nat_numeral)

lemma steady_acquire:
  "get_connection steady_client (stack_room fresh_world) fresh_world =
     (Inr 1, fresh_world\<lparr>pool_pos := 1, trace := [GetConn 1]\<rparr>)"
proof -
  have "get_connection steady_client (stack_room fresh_world) fresh_world =
      (Inr 1, snd (getconn steady_client fresh_world))"
    by (rule get_connection_hit) (simp_all add: steady_client_def fresh_world_def)
  then show ?thesis
    by (simp add: getconn_def getconn_event_def log_def Let_def steady_client_def
        fresh_world_def)
qed

text \<open>
  C3. Let the acquisition return connection \<open>c\<close>. For every classifier: a statement it
  does not classify as mutating has \<^verbatim>\<open>autocommit\<close> set on \<open>c\<close> before the cursor is
  opened, is executed on \<open>c\<close> in autocommit mode, and no commit is called; a statement it
  classifies as mutating is executed on \<open>c\<close> and, when the execution returns, \<^verbatim>\<open>commit\<close>
  is the next call on \<open>c\<close>. With the classifier of the spec, every statement that starts
  with \<^verbatim>\<open>SELECT\<close> (in any case) is of the first kind, and every statement that starts with
  \<^verbatim>\<open>INSERT\<close>, \<^verbatim>\<open>UPDATE\<close> or \<^verbatim>\<open>DELETE\<close> is of the second kind.
\<close>

theorem execute_query_commit_mode:
  assumes "get_connection self (stack_room w) w = (Inr c, w1)"
  shows "(\<not> classify q \<longrightarrow>
           execute_query self classify db q ps w =
             (case db c q ps of
                Raises e \<Rightarrow> Inl e
              | Described rows \<Rightarrow> Inr (Rows rows)
              | NoDescription \<Rightarrow> Inr PyTrue,
              w1\<lparr>autocommit := (autocommit w1)(c := True),
                  trace := trace w1
                    @ [SetAutocommit c, OpenCursor c (cursor_factory self),
                       Execute c True q ps]
                    @ (case db c q ps of
                         Raises e \<Rightarrow> []
                       | Described rows \<Rightarrow> [Fetchall c, CloseCursor c, PutConn c]
                       | NoDescription \<Rightarrow> [CloseCursor c, PutConn c])\<rparr>))
       \<and> (classify q \<longrightarrow>
           execute_query self classify db q ps w =
             (case db c q ps of
                Raises e \<Rightarrow> Inl e
              | Described rows \<Rightarrow> Inr (Rows rows)
              | NoDescription \<Rightarrow> Inr PyTrue,
              w1\<lparr>trace := trace w1
                    @ [OpenCursor c (cursor_factory self),
                       Execute c (autocommit w1 c) q ps]
                    @ (case db c q ps of
                         Raises e \<Rightarrow> []
                       | Described rows \<Rightarrow> [Commit c, Fetchall c, CloseCursor c, PutConn c]
                       | NoDescription \<Rightarrow> [Commit c, CloseCursor c, PutConn c])\<rparr>))
       \<and> (map upper (take 6 q) = ''SELECT'' \<longrightarrow> \<not> is_crud q)
       \<and> (map upper (take 6 q) \<in> {''INSERT'', ''UPDATE'', ''DELETE''} \<longrightarrow> is_crud q)"
proof (intro conjI impI)
  assume "\<not> classify q"
  with assms show "execute_query self classify db q ps w =
             (case db c q ps of
                Raises e \<Rightarrow> Inl e
              | Described rows \<Rightarrow> Inr (Rows rows)
              | NoDescription \<Rightarrow> Inr PyTrue,
              w1\<lparr>autocommit := (autocommit w1)(c := True),
                  trace := trace w1
                    @ [SetAutocommit c, OpenCursor c (cursor_factory self),
                       Execute c True q ps]
                    @ (case db c q ps of
                         Raises e \<Rightarrow> []
                       | Described rows \<Rightarrow> [Fetchall c, CloseCursor c, PutConn c]
                       | NoDescription \<Rightarrow> [CloseCursor c, PutConn c])\<rparr>)"
    by (rule execute_query_read)
next
  assume "classify q"
  with assms show "execute_query self classify db q ps w =
             (case db c q ps of
                Raises e \<Rightarrow> Inl e
              | Described rows \<Rightarrow> Inr (Rows rows)
              | NoDescription \<Rightarrow> Inr PyTrue,
              w1\<lparr>trace := trace w1
                    @ [OpenCursor c (cursor_factory self),
                       Execute c (autocommit w1 c) q ps]
                    @ (case db c q ps of
                         Raises e \<Rightarrow> []
                       | Described rows \<Rightarrow> [Commit c, Fetchall c, CloseCursor c, PutConn c]
                       | NoDescription \<Rightarrow> [Commit c, CloseCursor c, PutConn c])\<rparr>)"
    by (rule execute_query_write)
next
  assume "map upper (take 6 q) = ''SELECT''"
  then show "\<not> is_crud q" by (simp add: is_crud_iff)
next
  assume "map upper (take 6 q) \<in> {''INSERT'', ''UPDATE'', ''DELETE''}"
  then show "is_crud q" by (auto simp: is_crud_iff)
qed

theorem execute_query_commit_mode_witness:
  "execute_query steady_client is_crud one_row ''select 1'' None fresh_world =
     (Inr (Rows [[SqlInt 1]]),
      fresh_world\<lparr>pool_pos := 1, autocommit := (\<lambda>c. False)(1 := True),
        trace := [GetConn 1, SetAutocommit 1, OpenCursor 1 None,
                  Execute 1 True ''select 1'' None, Fetchall 1, CloseCursor 1, PutConn 1]\<rparr>)
   \<and> execute_query steady_client is_crud no_columns ''INSERT INTO t (a) VALUES(%s)''
        (Some [SqlInt 1]) fresh_world =
     (Inr PyTrue,
      fresh_world\<lparr>pool_pos := 1,
        trace := [GetConn 1, OpenCursor 1 None,
                  Execute 1 False ''INSERT INTO t (a) VALUES(%s)'' (Some [SqlInt 1]),
                  Commit 1, CloseCursor 1, PutConn 1]\<rparr>)"
proof
  have sel: "map upper (take 6 ''select 1'') = ''SELECT''"
    by (simp add: upper_def)
  have ins: "map upper (take 6 ''INSERT INTO t (a) VALUES(%s)'') \<in> {''INSERT'', ''UPDATE'', ''DELETE''}"
    by (simp add: upper_def)
  note rd = execute_query_commit_mode[OF steady_acquire, of is_crud "''select 1''" one_row None]
  from rd sel have "\<not> is_crud ''select 1''" by blast
  with rd show "execute_query steady_client is_crud one_row ''select 1'' None fresh_world =
     (Inr (Rows [[SqlInt 1]]),
      fresh_world\<lparr>pool_pos := 1, autocommit := (\<lambda>c. False)(1 := True),
        trace := [GetConn 1, SetAutocommit 1, OpenCursor 1 None,
                  Execute 1 True ''select 1'' None, Fetchall 1, CloseCursor 1, PutConn 1]\<rparr>)"
    by (simp add: one_row_def steady_client_def fresh_world_def)
  note wr = execute_query_commit_mode[OF steady_acquire, of is_crud
      "''INSERT INTO t (a) VALUES(%s)''" no_columns "Some [SqlInt 1]"]
  from wr ins have "is_crud ''INSERT INTO t (a) VALUES(%s)''" by blast
  with wr show "execute_query steady_client is_crud no_columns ''INSERT INTO t (a) VALUES(%s)''
        (Some [SqlInt 1]) fresh_world =
     (Inr PyTrue,
      fresh_world\<lparr>pool_pos := 1,
        trace := [GetConn 1, OpenCursor 1 None,
                  Execute 1 False ''INSERT INTO t (a) VALUES(%s)'' (Some [SqlInt 1]),
                  Commit 1, CloseCursor 1, PutConn 1]\<rparr>)"
    by (simp add: no_columns_def steady_client_def fresh_world_def)
qed

text \<open>
  C7. Let the acquisition return connection \<open>c\<close>, and let \<^verbatim>\<open>cursor.execute\<close> raise \<open>e\<close>.
  Then \<^verbatim>\<open>execute_query\<close> raises \<open>e\<close> itself, and \<^verbatim>\<open>cursor.execute\<close> is the last call the
  client makes: the statement is executed once, and no call follows it on the connection
  or on the pool.
\<close>

theorem execute_query_raises:
  assumes "get_connection self (stack_room w) w = (Inr c, w1)" and "db c q ps = Raises e"
  shows "execute_query self classify db q ps w =
     (Inl e,
      if classify q then
        w1\<lparr>trace := trace w1
              @ [OpenCursor c (cursor_factory self), Execute c (autocommit w1 c) q ps]\<rparr>
      else
        w1\<lparr>autocommit := (autocommit w1)(c := True),
            trace := trace w1
              @ [SetAutocommit c, OpenCursor c (cursor_factory self),
                 Execute c True q ps]\<rparr>)"
proof (cases "classify q")
  case True
  from execute_query_write[where classify = classify and q = q and db = db and ps = ps,
      OF assms(1) True] assms(2) True
  show ?thesis by simp
next
  case False
  from execute_query_read[where classify = classify and q = q and db = db and ps = ps,
      OF assms(1) False] assms(2) False
  show ?thesis by simp
qed

theorem execute_query_raises_witness:
  "execute_query steady_client is_crud failing ''INSERT INTO t (a) VALUES(%s)''
        (Some [SqlInt 1]) fresh_world =
     (Inl (DriverError ''syntax error''),
      fresh_world\<lparr>pool_pos := 1,
        trace := [GetConn 1, OpenCursor 1 None,
                  Execute 1 False ''INSERT INTO t (a) VALUES(%s)'' (Some [SqlInt 1])]\<rparr>)"
proof -
  have raises: "failing 1 ''INSERT INTO t (a) VALUES(%s)'' (Some [SqlInt 1]) =
      Raises (DriverError ''syntax error'')"
    by (simp add: failing_def)
  have crud: "is_crud ''INSERT INTO t (a) VALUES(%s)''"
    by (simp add: is_crud_iff upper_def)
  from execute_query_raises[where db = failing and classify = is_crud,
      OF steady_acquire raises] crud
  show ?thesis
    by (simp add: steady_client_def fresh_world_def)
qed

subsection \<open>The helpers\<close>

lemma attr_fetchone_raises: "attr_fetchone cur = Inl AttributeError"
  by (cases cur) simp_all

lemma attr_fetchall_raises: "attr_fetchall cur = Inl AttributeError"
  by (cases cur) simp_all

lemma attr_rowcount_raises: "attr_rowcount cur = Inl AttributeError"
  by (cases cur) simp_all

text \<open>
  Whatever the classifier, the driver and the pool do, \<^verbatim>\<open>insert\<close>, \<^verbatim>\<open>update\<close> and
  \<^verbatim>\<open>delete\<close> never return a value.
\<close>

lemma insert_row_no_value: "insert_row self classify db table d ret w \<noteq> (Inr v, w')"
  by (auto simp: insert_row_def then_return_def fetchone_or_rowcount_def
      attr_fetchone_raises attr_rowcount_raises split: prod.splits sum.splits)

lemma update_no_value: "update self classify db table d wh ret w \<noteq> (Inr v, w')"
  by (auto simp: update_def then_return_def fetchall_or_rowcount_def
      attr_fetchall_raises attr_rowcount_raises split: prod.splits sum.splits)

lemma delete_no_value: "delete self classify db table wh ret w \<noteq> (Inr v, w')"
  by (auto simp: delete_def then_return_def fetchall_or_rowcount_def
      attr_fetchall_raises attr_rowcount_raises split: prod.splits sum.splits)

text \<open>
  C1. \<^verbatim>\<open>insert("t", {"a": 1})\<close> on a pool that hands out an open connection, with a driver
  that accepts the statement: the statement is built, executed and committed, the
  connection goes back to the pool, and then the attribute lookup on the value that
  \<^verbatim>\<open>execute_query\<close> returned raises; the same with \<^verbatim>\<open>returning="id"\<close> and a driver that
  produces the row.
\<close>

theorem insert_raises_attribute_error:
  "insert_row steady_client is_crud no_columns ''t'' [(''a'', SqlInt 1)] None fresh_world =
     (Inl AttributeError,
      fresh_world\<lparr>pool_pos := 1,
        trace := [GetConn 1, OpenCursor 1 None,
                  Execute 1 False ''INSERT INTO t (a) VALUES(%s)'' (Some [SqlInt 1]),
                  Commit 1, CloseCursor 1, PutConn 1]\<rparr>)
   \<and> insert_row steady_client is_crud one_row ''t'' [(''a'', SqlInt 1)] (Some ''id'') fresh_world =
     (Inl AttributeError,
      fresh_world\<lparr>pool_pos := 1,
        trace := [GetConn 1, OpenCursor 1 None,
                  Execute 1 False ''INSERT INTO t (a) VALUES(%s) RETURNING id''
                    (Some [SqlInt 1]),
                  Commit 1, Fetchall 1, CloseCursor 1, PutConn 1]\<rparr>)"
proof
  have sql: "insert_sql ''t'' [(''a'', SqlInt 1)] None = ''INSERT INTO t (a) VALUES(%s)''"
    by (simp add: insert_sql_def format_insert_def)
  have crud: "is_crud ''INSERT INTO t (a) VALUES(%s)''"
    by (simp add: is_crud_iff upper_def)
  from execute_query_write[where classify = is_crud and db = no_columns
      and ps = "Some [SqlInt 1]", OF steady_acquire crud]
  show "insert_row steady_client is_crud no_columns ''t'' [(''a'', SqlInt 1)] None fresh_world =
     (Inl AttributeError,
      fresh_world\<lparr>pool_pos := 1,
        trace := [GetConn 1, OpenCursor 1 None,
                  Execute 1 False ''INSERT INTO t (a) VALUES(%s)'' (Some [SqlInt 1]),
                  Commit 1, CloseCursor 1, PutConn 1]\<rparr>)"
    by (simp add: insert_row_def sql then_return_def fetchone_or_rowcount_def
        no_columns_def steady_client_def fresh_world_def)
next
  have sql: "insert_sql ''t'' [(''a'', SqlInt 1)] (Some ''id'') =
      ''INSERT INTO t (a) VALUES(%s) RETURNING id''"
    by (simp add: insert_sql_def format_insert_def)
  have crud: "is_crud ''INSERT INTO t (a) VALUES(%s) RETURNING id''"
    by (simp add: is_crud_iff upper_def)
  from execute_query_write[where classify = is_crud and db = one_row
      and ps = "Some [SqlInt 1]", OF steady_acquire crud]
  show "insert_row steady_client is_crud one_row ''t'' [(''a'', SqlInt 1)] (Some ''id'') fresh_world =
     (Inl AttributeError,
      fresh_world\<lparr>pool_pos := 1,
        trace := [GetConn 1, OpenCursor 1 None,
                  Execute 1 False ''INSERT INTO t (a) VALUES(%s) RETURNING id''
                    (Some [SqlInt 1]),
                  Commit 1, Fetchall 1, CloseCursor 1, PutConn 1]\<rparr>)"
    by (simp add: insert_row_def sql then_return_def fetchone_or_rowcount_def
        one_row_def steady_client_def fresh_world_def)
qed

text \<open>
  C6. \<^verbatim>\<open>update("table", {"x": 1}, where=("id = %s", [3]))\<close>: the statement text and the
  parameters are the ones expected, the statement is executed and committed, and then the
  lookup of \<^verbatim>\<open>rowcount\<close> raises instead of giving the count.
\<close>

theorem update_raises_attribute_error:
  "update steady_client is_crud no_columns ''table'' [(''x'', SqlInt 1)]
       (Some (W2 ''id = %s'' [SqlInt 3])) None fresh_world =
     (Inl AttributeError,
      fresh_world\<lparr>pool_pos := 1,
        trace := [GetConn 1, OpenCursor 1 None,
                  Execute 1 False ''UPDATE table SET x=%s WHERE id = %s''
                    (Some [SqlInt 1, SqlInt 3]),
                  Commit 1, CloseCursor 1, PutConn 1]\<rparr>)"
proof -
  have sql: "update_sql ''table'' [(''x'', SqlInt 1)] (Some (W2 ''id = %s'' [SqlInt 3])) None =
      ''UPDATE table SET x=%s WHERE id = %s''"
    by (simp add: update_sql_def format_update_def)
  have crud: "is_crud ''UPDATE table SET x=%s WHERE id = %s''"
    by (simp add: is_crud_iff upper_def)
  from execute_query_write[where classify = is_crud and db = no_columns
      and ps = "Some [SqlInt 1, SqlInt 3]", OF steady_acquire crud]
  show ?thesis
    by (simp add: update_def sql then_return_def fetchall_or_rowcount_def
        no_columns_def steady_client_def fresh_world_def)
qed

subsection \<open>Connections handed out and handed back\<close>

text \<open>
  When the first answer of the pool is an open handle and the execution does not raise,
  that handle is the only one taken and it is handed back once, as the last call.
\<close>

lemma execute_query_returns_connection:
  assumes "connection_pool self (pool_pos w) = Handle c" and "\<not> closed w c"
    and "0 < stack_room w" and "\<And>e. db c q ps \<noteq> Raises e"
  shows "\<exists>r w' evs. execute_query self classify db q ps w = (Inr r, w') \<and>
           trace w' = trace w @ [GetConn c] @ evs @ [PutConn c] \<and>
           (\<forall>c'. GetConn c' \<notin> set evs \<and> PutConn c' \<notin> set evs)"
proof -
  let ?w1 = "snd (getconn self w)"
  have acq: "get_connection self (stack_room w) w = (Inr c, ?w1)"
    using assms(1,2,3) by (rule get_connection_hit)
  have tr: "trace ?w1 = trace w @ [GetConn c]"
    using assms(1) by (simp add: getconn_simps getconn_event_def)
  show ?thesis
  proof (cases "classify q")
    case True
    from execute_query_write[where classify = classify and q = q and db = db and ps = ps,
        OF acq True] assms(4) tr
    show ?thesis by (cases "db c q ps") auto
  next
    case False
    from execute_query_read[where classify = classify and q = q and db = db and ps = ps,
        OF acq False] assms(4) tr
    show ?thesis by (cases "db c q ps") auto
  qed
qed

lemma two_conn_acquire:
  assumes "closed w 1" and "\<not> closed w 2" and "pool_pos w \<le> 1" and "1 < d"
  shows "get_connection two_conn_client d w =
     (Inr 2, w\<lparr>pool_pos := 2,
               trace := trace w @ map (getconn_event \<circ> connection_pool two_conn_client)
                                     [pool_pos w..<2]\<rparr>)"
proof -
  have k: "pool_pos w + (1 - pool_pos w) = 1" using assms(3) by simp
  have "get_connection two_conn_client d w =
     (Inr 2, w\<lparr>pool_pos := Suc 1,
               trace := trace w @ map (getconn_event \<circ> connection_pool two_conn_client)
                                     [pool_pos w..<Suc 1]\<rparr>)"
  proof (rule get_connection_complete[OF k])
    show "1 - pool_pos w < d" using assms(4) by simp
    show "connection_pool two_conn_client 1 = Handle 2" by (simp add: two_conn_client_def)
    show "\<not> closed w 2" by (rule assms(2))
    show "closed w c'" if "pool_pos w \<le> j" "j < 1" "connection_pool two_conn_client j = Handle c'"
      for j c'
      using that assms(1) by (simp add: two_conn_client_def)
  qed
  then show ?thesis by (simp add: numeral_2_eq_2)
qed

text \<open>
  C4. Two runs in which a connection taken from the pool is not handed back. In the
  first, the pool's first answer is the closed connection \<open>1\<close>: \<^verbatim>\<open>_get_connection\<close> asks
  again and gets connection \<open>2\<close>; connection \<open>1\<close> is never passed to \<^verbatim>\<open>putconn\<close>. In the
  second, \<^verbatim>\<open>_create_cursor\<close> finds connection \<open>1\<close> closed and takes connection \<open>2\<close> for
  the cursor; the caller hands back connection \<open>1\<close>, and connection \<open>2\<close> is never passed to
  \<^verbatim>\<open>putconn\<close>.
\<close>

theorem closed_handle_leaks_connection:
  "execute_query two_conn_client is_crud one_row ''SELECT 1'' None stale_world =
     (Inr (Rows [[SqlInt 1]]),
      stale_world\<lparr>pool_pos := 2, autocommit := (\<lambda>c. False)(2 := True),
        trace := [GetConn 1, GetConn 2, SetAutocommit 2, OpenCursor 2 None,
                  Execute 2 True ''SELECT 1'' None, Fetchall 2, CloseCursor 2,
                  PutConn 2]\<rparr>)
   \<and> execute_with_autocommit two_conn_client one_row 1 ''SELECT 1'' None dropped_world =
     (Inr (Rows [[SqlInt 1]]),
      dropped_world\<lparr>pool_pos := 2,
        trace := [GetConn 1, GetConn 2, OpenCursor 2 None,
                  Execute 2 False ''SELECT 1'' None, Fetchall 2, CloseCursor 2,
                  PutConn 1]\<rparr>)"
proof
  have "[pool_pos stale_world..<2] = [0, 1]"
    unfolding stale_world_def by code_simp
  with two_conn_acquire[of stale_world "stack_room stale_world"]
  have acq: "get_connection two_conn_client (stack_room stale_world) stale_world =
      (Inr 2, stale_world\<lparr>pool_pos := 2, trace := [GetConn 1, GetConn 2]\<rparr>)"
    by (simp add: stale_world_def two_conn_client_def getconn_event_def)
  have rd: "\<not> is_crud ''SELECT 1''"
    by (simp add: is_crud_iff upper_def)
  from execute_query_read[where classify = is_crud and db = one_row and ps = None,
      OF acq rd]
  show "execute_query two_conn_client is_crud one_row ''SELECT 1'' None stale_world =
     (Inr (Rows [[SqlInt 1]]),
      stale_world\<lparr>pool_pos := 2, autocommit := (\<lambda>c. False)(2 := True),
        trace := [GetConn 1, GetConn 2, SetAutocommit 2, OpenCursor 2 None,
                  Execute 2 True ''SELECT 1'' None, Fetchall 2, CloseCursor 2,
                  PutConn 2]\<rparr>)"
    by (simp add: one_row_def two_conn_client_def stale_world_def)
next
  have "[pool_pos dropped_world..<2] = [1]"
    unfolding dropped_world_def by code_simp
  with two_conn_acquire[of dropped_world "stack_room dropped_world - 2"]
  have acq: "get_connection two_conn_client (stack_room dropped_world - 2) dropped_world =
      (Inr 2, dropped_world\<lparr>pool_pos := 2, trace := [GetConn 1, GetConn 2]\<rparr>)"
    by (simp add: dropped_world_def two_conn_client_def getconn_event_def)
  have "closed dropped_world 1"
    by (simp add: dropped_world_def)
  with acq show "execute_with_autocommit two_conn_client one_row 1 ''SELECT 1'' None dropped_world =
     (Inr (Rows [[SqlInt 1]]),
      dropped_world\<lparr>pool_pos := 2,
        trace := [GetConn 1, GetConn 2, OpenCursor 2 None,
                  Execute 2 False ''SELECT 1'' None, Fetchall 2, CloseCursor 2,
                  PutConn 1]\<rparr>)"
    by (simp add: execute_with_autocommit_def create_cursor_def log_def
        close_cursor_connection_def close_cursor_def put_connection_def
        one_row_def two_conn_client_def dropped_world_def)
qed

subsection \<open>Statement texts and parameters\<close>

text \<open>
  C2. \<^verbatim>\<open>select("table", fields=["a","b"], where=("a > %s", [5]))\<close> on a pool that hands
  out an open connection: the text that is executed is
  \<^verbatim>\<open>SELECT a, b FROM table WHERE a > %s\<close>, and it is executed with no parameters at all
  (\<^verbatim>\<open>None\<close>), not with \<^verbatim>\<open>[5]\<close>: the placeholder reaches the driver unfilled. With a
  driver that raises on it the call raises; with one that produces a row the call returns
  that row.
\<close>

theorem select_drops_where_params:
  "select steady_client is_crud failing ''table'' [''a'', ''b'']
       (Some (W2 ''a > %s'' [SqlInt 5])) None None None fresh_world =
     (Inl (DriverError ''syntax error''),
      fresh_world\<lparr>pool_pos := 1, autocommit := (\<lambda>c. False)(1 := True),
        trace := [GetConn 1, SetAutocommit 1, OpenCursor 1 None,
                  Execute 1 True ''SELECT a, b FROM table WHERE a > %s'' None]\<rparr>)
   \<and> select steady_client is_crud one_row ''table'' [''a'', ''b'']
       (Some (W2 ''a > %s'' [SqlInt 5])) None None None fresh_world =
     (Inr (Rows [[SqlInt 1]]),
      fresh_world\<lparr>pool_pos := 1, autocommit := (\<lambda>c. False)(1 := True),
        trace := [GetConn 1, SetAutocommit 1, OpenCursor 1 None,
                  Execute 1 True ''SELECT a, b FROM table WHERE a > %s'' None,
                  Fetchall 1, CloseCursor 1, PutConn 1]\<rparr>)"
proof
  have sql: "select_sql ''table'' [''a'', ''b''] (Some (W2 ''a > %s'' [SqlInt 5])) None None None
      = ''SELECT a, b FROM table WHERE a > %s''"
    by (simp add: select_sql_def)
  have rd: "\<not> is_crud ''SELECT a, b FROM table WHERE a > %s''"
    by (simp add: is_crud_iff upper_def)
  from execute_query_read[where classify = is_crud and db = failing and ps = None,
      OF steady_acquire rd]
  show "select steady_client is_crud failing ''table'' [''a'', ''b'']
       (Some (W2 ''a > %s'' [SqlInt 5])) None None None fresh_world =
     (Inl (DriverError ''syntax error''),
      fresh_world\<lparr>pool_pos := 1, autocommit := (\<lambda>c. False)(1 := True),
        trace := [GetConn 1, SetAutocommit 1, OpenCursor 1 None,
                  Execute 1 True ''SELECT a, b FROM table WHERE a > %s'' None]\<rparr>)"
    by (simp add: select_def sql failing_def steady_client_def fresh_world_def)
  from execute_query_read[where classify = is_crud and db = one_row and ps = None,
      OF steady_acquire rd]
  show "select steady_client is_crud one_row ''table'' [''a'', ''b'']
       (Some (W2 ''a > %s'' [SqlInt 5])) None None None fresh_world =
     (Inr (Rows [[SqlInt 1]]),
      fresh_world\<lparr>pool_pos := 1, autocommit := (\<lambda>c. False)(1 := True),
        trace := [GetConn 1, SetAutocommit 1, OpenCursor 1 None,
                  Execute 1 True ''SELECT a, b FROM table WHERE a > %s'' None,
                  Fetchall 1, CloseCursor 1, PutConn 1]\<rparr>)"
    by (simp add: select_def sql one_row_def steady_client_def fresh_world_def)
qed

text \<open>
  For every call of \<^verbatim>\<open>select\<close>, whatever its \<^verbatim>\<open>where\<close>, the parameters handed to
  \<^verbatim>\<open>execute_query\<close> are \<^verbatim>\<open>None\<close>.
\<close>

lemma select_passes_no_params:
  "select self classify db table flds wh ord lim off w =
     execute_query self classify db (select_sql table flds wh ord lim off) None w"
  by (simp add: select_def)

text \<open>
  C8, as the claim states it: with no fields, the statement built for table \<^verbatim>\<open>t\<close> does
  not start with \<^verbatim>\<open>SELECT * FROM t\<close>.
\<close>

theorem select_no_fields_counterexample:
  "take 15 (select_sql ''t'' [] None None None None) \<noteq> ''SELECT * FROM t''"
  by (simp add: select_sql_def)

text \<open>
  C8, amended: for every call of \<^verbatim>\<open>select\<close> with an empty \<^verbatim>\<open>fields\<close>, the field list of
  the built statement is empty: the statement is \<^verbatim>\<open>SELECT  FROM <table>\<close> followed by the
  clauses, with nothing between \<^verbatim>\<open>SELECT\<close> and \<^verbatim>\<open>FROM\<close> but two spaces, and this is the
  text that is executed.
\<close>

theorem select_no_fields:
  "select_sql table [] wh ord lim off =
     ''SELECT  FROM '' @ table @ where_sql wh @ order_sql ord @ limit lim @ offset off
   \<and> select self classify db table [] wh ord lim off w =
     execute_query self classify db
       (''SELECT  FROM '' @ table @ where_sql wh @ order_sql ord @ limit lim @ offset off)
       None w"
  by (simp add: select_def select_sql_def)

text \<open>
  C9. For every call of \<^verbatim>\<open>update\<close> or \<^verbatim>\<open>delete\<close> whose \<^verbatim>\<open>where\<close> is a tuple of the
  fragment alone, the fragment is in the statement text after \<^verbatim>\<open>WHERE\<close>, and the
  parameters handed to \<^verbatim>\<open>execute_query\<close> are the values of \<^verbatim>\<open>data\<close> alone for \<^verbatim>\<open>update\<close>
  and \<^verbatim>\<open>None\<close> for \<^verbatim>\<open>delete\<close>.
\<close>

theorem where_fragment_alone_no_params:
  "update self classify db table d (Some (W1 f)) ret w =
     then_return
       (execute_query self classify db
          (''UPDATE '' @ table @ '' SET '' @ format_update d @ '' WHERE '' @ f @ returning ret)
          (Some (map snd d)) w)
       (fetchall_or_rowcount ret)
   \<and> delete self classify db table (Some (W1 f)) ret w =
     then_return
       (execute_query self classify db
          (''DELETE FROM '' @ table @ '' WHERE '' @ f @ returning ret) None w)
       (fetchall_or_rowcount ret)"
  by (simp add: update_def update_sql_def delete_def delete_sql_def)

text \<open>
  The statement of \<^verbatim>\<open>drop\<close>: for every table name the text handed to \<^verbatim>\<open>execute_query\<close>
  is \<^verbatim>\<open>DROP TABLE IF EXISTS <table>\<close>, with \<^verbatim>\<open> CASCADE\<close> appended exactly when
  \<^verbatim>\<open>cascade\<close> is true, and there are no parameters. Whether executing it raises for a
  table that does not exist is decided by the server, which is not part of the program:
  \<^verbatim>\<open>drop\<close> raises what the driver raises and nothing else.
\<close>

lemma drop_table_statement:
  "drop_table self classify db t cascade w =
     then_return
       (execute_query self classify db
          (''DROP TABLE IF EXISTS '' @ t @ (if cascade then '' CASCADE'' else [])) None w)
       (\<lambda>_. Inr ())"
  by (simp add: drop_table_def drop_sql_def)

lemma drop_table_outcome:
  assumes "get_connection self (stack_room w) w = (Inr c, w1)"
  shows "fst (drop_table self classify db t cascade w) =
     (case db c (''DROP TABLE IF EXISTS '' @ t @ (if cascade then '' CASCADE'' else [])) None of
        Raises e \<Rightarrow> Inl e | Described rows \<Rightarrow> Inr () | NoDescription \<Rightarrow> Inr ())"
proof -
  let ?q = "''DROP TABLE IF EXISTS '' @ t @ (if cascade then '' CASCADE'' else [])"
  show ?thesis
  proof (cases "classify ?q")
    case True
    from execute_query_write[where classify = classify and q = ?q and db = db and ps = None,
        OF assms True]
    show ?thesis
      unfolding drop_table_statement by (cases "db c ?q None") (simp_all add: then_return_def)
  next
    case False
    from execute_query_read[where classify = classify and q = ?q and db = db and ps = None,
        OF assms False]
    show ?thesis
      unfolding drop_table_statement by (cases "db c ?q None") (simp_all add: then_return_def)
  qed
qed

end
